theory Spec2Isabelle
  imports Main "HOL-Library.AList" "HOL-Library.Word"
begin

section \<open>The usergroup-manager composition function\<close>

text \<open>
  A shallow embedding of \<^verbatim>\<open>functions/usergroup-manager/fn.go\<close>. The function
  \<^verbatim>\<open>RunFunction\<close> is a straight line of calls into the Crossplane function SDK and
  the AWS SDK. The calls whose result depends on the request's encoding or on the
  outside world are fields of the record \<open>env\<close>; the helpers that only build the
  response, and the loops and literals of the function itself, are definitions.
\<close>

subsection \<open>Errors\<close>

text \<open>A Go \<^verbatim>\<open>error\<close>, by the text its \<^verbatim>\<open>Error()\<close> method returns.\<close>

datatype error = Error string

fun error_text :: "error \<Rightarrow> string" where
  "error_text (Error m) = m"

text \<open>\<^verbatim>\<open>fmt.Errorf(prefix + "%w", err)\<close>: the wrapped error's text after the prefix.\<close>

definition Errorf_w :: "string \<Rightarrow> error \<Rightarrow> error" where
  "Errorf_w prefix e = Error (prefix @ error_text e)"

subsection \<open>Documents\<close>

text \<open>A \<^verbatim>\<open>[]byte\<close> is a list of bytes; \<^verbatim>\<open>string(b)\<close> keeps the bytes.\<close>

type_synonym bytes = "char list"

text \<open>
  \<^verbatim>\<open>structpb.Value\<close>. A number is a float64, kept by its 64 bits. A
  \<^verbatim>\<open>structpb.Struct\<close> is its field map, as an association list read with \<open>map_of\<close>.
\<close>

datatype Value =
    NullValue
  | NumberValue "64 word"
  | StringValue string
  | BoolValue bool
  | StructValue "(string \<times> Value) list"
  | ListValue "Value list"

type_synonym Struct = "(string \<times> Value) list"

text \<open>
  The Go values held as \<^verbatim>\<open>any\<close> in the content of an unstructured object: what a
  decoded document holds (nil, bool, float64, string, slice, map) and the two Go
  types this function stores itself, \<^verbatim>\<open>int\<close> and \<^verbatim>\<open>[]string\<close>.
\<close>

datatype anyval =
    ANil
  | ABool bool
  | AFloat64 "64 word"
  | AInt int
  | AString string
  | AStrings "string list"
  | ASlice "anyval list"
  | AMap "(string \<times> anyval) list"

text \<open>\<^verbatim>\<open>composite.Unstructured\<close> with its \<^verbatim>\<open>Object map[string]any\<close>.\<close>

record Unstructured =
  Object :: "(string \<times> anyval) list"

text \<open>\<^verbatim>\<open>resource.Composite\<close>.\<close>

record Composite =
  Resource :: Unstructured
  ConnectionDetails :: "(string \<times> bytes) list"

text \<open>\<^verbatim>\<open>resource.Credentials\<close>; the function reads only \<^verbatim>\<open>Data\<close>.\<close>

record Credentials =
  Data :: "(string \<times> bytes) list"

text \<open>
  Indexing a Go map of byte slices and converting to a string: a missing key gives
  the nil slice, whose string is empty.
\<close>

definition data_string :: "(string \<times> bytes) list \<Rightarrow> string \<Rightarrow> string" where
  "data_string d k = (case map_of d k of None \<Rightarrow> [] | Some b \<Rightarrow> b)"

subsection \<open>Request and response\<close>

record fnResource =
  resource_struct :: "Struct option"
  connection_details :: "(string \<times> bytes) list"

record State =
  composite :: "fnResource option"
  resources :: "(string \<times> fnResource) list"

record RunFunctionRequest =
  req_tag :: string
  req_observed :: "State option"
  req_desired :: "State option"
  req_context :: Struct
  req_credentials :: "(string \<times> (string \<times> bytes) list) list"

datatype Severity = SEVERITY_FATAL | SEVERITY_WARNING | SEVERITY_NORMAL

record Result =
  severity :: Severity
  message :: string

datatype Status = STATUS_CONDITION_UNKNOWN | STATUS_CONDITION_TRUE | STATUS_CONDITION_FALSE

datatype Target = TARGET_COMPOSITE | TARGET_COMPOSITE_AND_CLAIM

text \<open>
  A condition of the response: its type, status and reason, the optional message
  (set by \<^verbatim>\<open>WithMessage\<close> only) and its target.
\<close>

record Condition =
  ctype :: string
  cstatus :: Status
  creason :: string
  cmessage :: "string option"
  ctarget :: Target

record RunFunctionResponse =
  rsp_tag :: string
  rsp_ttl :: nat
  rsp_desired :: "State option"
  rsp_context :: Struct
  rsp_results :: "Result list"
  rsp_conditions :: "Condition list"

text \<open>\<^verbatim>\<open>response.DefaultTTL\<close>, one minute, in seconds.\<close>

definition DefaultTTL :: nat where
  "DefaultTTL = 60"

text \<open>
  \<^verbatim>\<open>response.To\<close>: a response to the request, carrying the request's tag, desired
  state and context, with no result and no condition yet.
\<close>

definition To :: "RunFunctionRequest \<Rightarrow> nat \<Rightarrow> RunFunctionResponse" where
  "To req ttl =
     \<lparr>rsp_tag = req_tag req, rsp_ttl = ttl, rsp_desired = req_desired req,
      rsp_context = req_context req, rsp_results = [], rsp_conditions = []\<rparr>"

text \<open>\<^verbatim>\<open>response.Fatal\<close>: one more result, of fatal severity, with the error's text.\<close>

definition Fatal :: "RunFunctionResponse \<Rightarrow> error \<Rightarrow> RunFunctionResponse" where
  "Fatal rsp e =
     rsp\<lparr>rsp_results := rsp_results rsp @ [\<lparr>severity = SEVERITY_FATAL, message = error_text e\<rparr>]\<rparr>"

text \<open>\<^verbatim>\<open>response.SetContextKey\<close>: \<^verbatim>\<open>rsp.Context.Fields[key] = v\<close>.\<close>

definition SetContextKey :: "RunFunctionResponse \<Rightarrow> string \<Rightarrow> Value \<Rightarrow> RunFunctionResponse" where
  "SetContextKey rsp key v = rsp\<lparr>rsp_context := AList.update key v (rsp_context rsp)\<rparr>"

text \<open>
  \<^verbatim>\<open>response.ConditionTrue(rsp, typ, reason)\<close> appends a condition of status true
  with that type and reason and no message, and \<^verbatim>\<open>TargetCompositeAndClaim\<close> retargets
  the condition just appended.
\<close>

definition ConditionTrue :: "RunFunctionResponse \<Rightarrow> string \<Rightarrow> string \<Rightarrow> RunFunctionResponse" where
  "ConditionTrue rsp typ reason =
     rsp\<lparr>rsp_conditions := rsp_conditions rsp @
       [\<lparr>ctype = typ, cstatus = STATUS_CONDITION_TRUE, creason = reason, cmessage = None,
         ctarget = TARGET_COMPOSITE\<rparr>]\<rparr>"

definition TargetCompositeAndClaim :: "RunFunctionResponse \<Rightarrow> RunFunctionResponse" where
  "TargetCompositeAndClaim rsp =
     (case rev (rsp_conditions rsp) of
        [] \<Rightarrow> rsp
      | c # cs \<Rightarrow> rsp\<lparr>rsp_conditions := rev cs @ [c\<lparr>ctarget := TARGET_COMPOSITE_AND_CLAIM\<rparr>]\<rparr>)"


text \<open>A response is fatal when one of its results has fatal severity.\<close>

definition is_fatal :: "RunFunctionResponse \<Rightarrow> bool" where
  "is_fatal rsp = (SEVERITY_FATAL \<in> set (map severity (rsp_results rsp)))"

subsection \<open>The remote API\<close>

text \<open>\<^verbatim>\<open>types.User\<close> of the ElastiCache API; the function reads these two fields.\<close>

record User =
  UserId :: "string option"
  UserName :: "string option"

record DescribeUsersOutput =
  Users :: "User list"

text \<open>\<^verbatim>\<open>credentials.NewStaticCredentialsProvider(key, secret, session)\<close>.\<close>

record StaticCredentialsProvider =
  AccessKeyID :: string
  SecretAccessKey :: string
  SessionToken :: string

definition NewStaticCredentialsProvider :: "string \<Rightarrow> string \<Rightarrow> string \<Rightarrow> StaticCredentialsProvider" where
  "NewStaticCredentialsProvider k s t = \<lparr>AccessKeyID = k, SecretAccessKey = s, SessionToken = t\<rparr>"

text \<open>The \<^verbatim>\<open>aws.Config\<close> that the two options of \<^verbatim>\<open>LoadDefaultConfig\<close> set.\<close>

record Config =
  Region :: string
  Provider :: StaticCredentialsProvider

text \<open>\<^verbatim>\<open>aws.ToString\<close>: the pointed-to string, empty for nil.\<close>

definition ToString :: "string option \<Rightarrow> string" where
  "ToString p = (case p of None \<Rightarrow> [] | Some s \<Rightarrow> s)"

subsection \<open>The calls that leave the function\<close>

text \<open>
  The SDK calls whose outcome the function only branches on. Each is a function of
  what the call receives. \<^verbatim>\<open>response.SetDesiredCompositeResource\<close> takes the
  response's desired state and the composite resource, and gives the new desired
  state and the error it returns.
\<close>

record env =
  GetObservedCompositeResource :: "RunFunctionRequest \<Rightarrow> error + Composite"
  GetString :: "Unstructured \<Rightarrow> string \<Rightarrow> error + string"
  GetCredentials :: "RunFunctionRequest \<Rightarrow> string \<Rightarrow> error + Credentials"
  LoadDefaultConfig :: "string \<Rightarrow> StaticCredentialsProvider \<Rightarrow> error + Config"
  DescribeUsers :: "Config \<Rightarrow> error + DescribeUsersOutput"
  SetDesiredCompositeResource :: "State option \<Rightarrow> Composite \<Rightarrow> State option \<times> error option"

subsection \<open>What a run leaves behind\<close>

datatype logval = LString string | LInt int | LError error

text \<open>
  The effects of a run in order: the lines given to \<^verbatim>\<open>f.log.Info\<close> with their
  key-value pairs, and the request sent to the remote API.
\<close>

datatype event =
    Info string "(string \<times> logval) list"
  | DescribeUsersCall Config

text \<open>
  The two values \<^verbatim>\<open>RunFunction\<close> returns, the events of the run, and the observed
  composite resource as the run leaves it in memory (\<open>None\<close> when it was not read).
\<close>

record outcome =
  response :: RunFunctionResponse
  err :: "error option"
  events :: "event list"
  oxr :: "Composite option"

subsection \<open>Formatting\<close>

text \<open>\<^verbatim>\<open>%d\<close> of \<^verbatim>\<open>fmt.Sprintf\<close>: the decimal digits, with a sign when negative.\<close>

definition digit_char :: "nat \<Rightarrow> char" where
  "digit_char d = ''0123456789'' ! d"

function decimal :: "nat \<Rightarrow> string" where
  "decimal n = (if n < 10 then [digit_char n] else decimal (n div 10) @ [digit_char (n mod 10)])"
  by pat_completeness auto
termination
  by (relation "measure id") auto

declare decimal.simps [simp del]

definition Sprintf_d :: "int \<Rightarrow> string" where
  "Sprintf_d i = (if i < 0 then CHR ''-'' # decimal (nat (- i)) else decimal (nat i))"

subsection \<open>RunFunction\<close>

text \<open>
  Lines 39 to 43: the region of the resource, or the default with a log line when
  \<^verbatim>\<open>GetString\<close> returns an error.
\<close>

definition resolveRegion :: "env \<Rightarrow> Composite \<Rightarrow> string \<times> event list" where
  "resolveRegion e x =
     (case GetString e (Resource x) ''spec.parameters.region'' of
        Inl _ \<Rightarrow>
          (''us-east-1'',
           [Info ''Region not specified, using default'' [(''default'', LString ''us-east-1'')]])
      | Inr region \<Rightarrow> (region, []))"

text \<open>Lines 55 to 59: the provider from the three entries of the credential data.\<close>

definition credentialsProvider :: "Credentials \<Rightarrow> StaticCredentialsProvider" where
  "credentialsProvider creds =
     NewStaticCredentialsProvider
       (data_string (Data creds) ''aws_access_key_id'')
       (data_string (Data creds) ''aws_secret_access_key'')
       (data_string (Data creds) ''aws_session_token'')"

text \<open>
  Lines 79 to 85: the loop over the users, appending the identifier of each user whose
  \<^verbatim>\<open>UserId\<close> is not nil and logging it.
\<close>

fun collectUserIDs :: "User list \<Rightarrow> string list \<Rightarrow> event list \<Rightarrow> string list \<times> event list" where
  "collectUserIDs [] userIDs evs = (userIDs, evs)"
| "collectUserIDs (user # users) userIDs evs =
     (case UserId user of
        None \<Rightarrow> collectUserIDs users userIDs evs
      | Some uid \<Rightarrow>
          collectUserIDs users (userIDs @ [uid])
            (evs @ [Info ''Discovered user''
               [(''userId'', LString uid), (''userName'', LString (ToString (UserName user)))]]))"

text \<open>
  Lines 91 to 97: a slice of \<^verbatim>\<open>len(userIDs)\<close> values, each slot assigned the string
  value of the identifier at its index. \<open>NullValue\<close> stands in a slot not yet assigned.
\<close>

fun assignValues :: "nat \<Rightarrow> string list \<Rightarrow> Value list \<Rightarrow> Value list" where
  "assignValues i [] vals = vals"
| "assignValues i (uid # ids) vals = assignValues (Suc i) ids (vals[i := StringValue uid])"

definition stringValues :: "string list \<Rightarrow> Value list" where
  "stringValues userIDs = assignValues 0 userIDs (replicate (length userIDs) NullValue)"

text \<open>Lines 101 to 104: the status object, and its assignment to the key \<^verbatim>\<open>status\<close>.\<close>

definition statusObject :: "string list \<Rightarrow> anyval" where
  "statusObject userIDs =
     AMap [(''discoveredUsers'', AInt (int (length userIDs))), (''userIDs'', AStrings userIDs)]"

definition setStatus :: "Composite \<Rightarrow> string list \<Rightarrow> Composite" where
  "setStatus x userIDs =
     x\<lparr>Resource := (Resource x)\<lparr>Object :=
          AList.update ''status'' (statusObject userIDs) (Object (Resource x))\<rparr>\<rparr>"

text \<open>Lines 87 to 112: publishing the identifiers.\<close>

definition publish ::
  "env \<Rightarrow> RunFunctionResponse \<Rightarrow> Composite \<Rightarrow> string list \<Rightarrow> event list \<Rightarrow> outcome" where
  "publish e rsp x userIDs evs =
     (let evs1 = evs @ [Info ''Total users discovered'' [(''count'', LInt (int (length userIDs)))]];
          rsp1 = SetContextKey rsp ''discoveredUserIDs'' (ListValue (stringValues userIDs));
          x1 = setStatus x userIDs;
          (d, werr) = SetDesiredCompositeResource e (rsp_desired rsp1) x1;
          rsp2 = rsp1\<lparr>rsp_desired := d\<rparr>;
          evs2 = (case werr of
                    None \<Rightarrow> evs1
                  | Some er \<Rightarrow> evs1 @ [Info ''Failed to update XR status'' [(''error'', LError er)]]);
          rsp3 = TargetCompositeAndClaim
                   (ConditionTrue rsp2 ''UserDiscoverySuccess''
                      (''Discovered '' @ Sprintf_d (int (length userIDs)) @ '' ElastiCache users''))
      in \<lparr>response = rsp3, err = None, events = evs2, oxr = Some x1\<rparr>)"

text \<open>Lines 26 to 113.\<close>

definition RunFunction :: "env \<Rightarrow> RunFunctionRequest \<Rightarrow> outcome" where
  "RunFunction e req =
     (let evs0 = [Info ''Running usergroup-manager function'' [(''tag'', LString (req_tag req))]];
          rsp = To req DefaultTTL
      in case GetObservedCompositeResource e req of
           Inl er \<Rightarrow> \<lparr>response = Fatal rsp er, err = None, events = evs0, oxr = None\<rparr>
         | Inr x \<Rightarrow>
             (let (region, evsr) = resolveRegion e x;
                  evs1 = evs0 @ evsr
              in case GetCredentials e req ''aws'' of
                   Inl er \<Rightarrow>
                     \<lparr>response = Fatal rsp (Errorf_w ''failed to get AWS credentials: '' er),
                      err = None, events = evs1, oxr = Some x\<rparr>
                 | Inr creds \<Rightarrow>
                     (case LoadDefaultConfig e region (credentialsProvider creds) of
                        Inl er \<Rightarrow>
                          \<lparr>response = Fatal rsp (Errorf_w ''failed to load AWS config: '' er),
                           err = None, events = evs1, oxr = Some x\<rparr>
                      | Inr cfg \<Rightarrow>
                          (let evs2 = evs1 @ [DescribeUsersCall cfg]
                           in case DescribeUsers e cfg of
                                Inl er \<Rightarrow>
                                  \<lparr>response =
                                     Fatal rsp (Errorf_w ''failed to describe ElastiCache users: '' er),
                                   err = None, events = evs2, oxr = Some x\<rparr>
                              | Inr describeOutput \<Rightarrow>
                                  (let (userIDs, evs3) = collectUserIDs (Users describeOutput) [] evs2
                                   in publish e rsp x userIDs evs3)))))"

subsection \<open>Reaching the listing call\<close>

text \<open>
  The run reads the composite resource \<open>x\<close> and the credentials \<open>creds\<close>, and loads
  the configuration \<open>cfg\<close>: every step before the call of \<^verbatim>\<open>DescribeUsers\<close> succeeds.
\<close>

definition reaches_listing ::
  "env \<Rightarrow> RunFunctionRequest \<Rightarrow> Composite \<Rightarrow> Credentials \<Rightarrow> Config \<Rightarrow> bool" where
  "reaches_listing e req x creds cfg =
     (GetObservedCompositeResource e req = Inr x \<and>
      GetCredentials e req ''aws'' = Inr creds \<and>
      LoadDefaultConfig e (fst (resolveRegion e x)) (credentialsProvider creds) = Inr cfg)"

text \<open>The identifiers the loop collects from a listing.\<close>

definition discoveredIDs :: "DescribeUsersOutput \<Rightarrow> string list" where
  "discoveredIDs out = fst (collectUserIDs (Users out) [] [])"

text \<open>The condition of line 109 for a list of identifiers.\<close>

definition successCondition :: "string list \<Rightarrow> Condition" where
  "successCondition userIDs =
     \<lparr>ctype = ''UserDiscoverySuccess'', cstatus = STATUS_CONDITION_TRUE,
      creason = ''Discovered '' @ Sprintf_d (int (length userIDs)) @ '' ElastiCache users'',
      cmessage = None, ctarget = TARGET_COMPOSITE_AND_CLAIM\<rparr>"

subsection \<open>Example inputs\<close>

definition example_composite :: Composite where
  "example_composite =
     \<lparr>Resource = \<lparr>Object =
        [(''apiVersion'', AString ''example.org/v1''),
         (''kind'', AString ''XCacheInfra''),
         (''spec'', AMap [(''parameters'', AMap [(''region'', AString ''eu-west-1'')])])]\<rparr>,
      ConnectionDetails = []\<rparr>"

definition example_request :: RunFunctionRequest where
  "example_request =
     \<lparr>req_tag = ''t1'', req_observed = None, req_desired = None,
      req_context = [(''upstream'', StringValue ''kept'')],
      req_credentials =
        [(''aws'',
          [(''aws_access_key_id'', ''AKIAEXAMPLE''),
           (''aws_secret_access_key'', ''secret''),
           (''aws_session_token'', ''token'')])]\<rparr>"

text \<open>The same request with a bundle that has no session token.\<close>

definition example_request_no_token :: RunFunctionRequest where
  "example_request_no_token =
     example_request\<lparr>req_credentials :=
        [(''aws'',
          [(''aws_access_key_id'', ''AKIAEXAMPLE''),
           (''aws_secret_access_key'', ''secret'')])]\<rparr>"

definition example_users :: "User list" where
  "example_users =
     [\<lparr>UserId = Some ''u1'', UserName = Some ''alice''\<rparr>,
      \<lparr>UserId = Some ''u2'', UserName = None\<rparr>,
      \<lparr>UserId = Some ''u3'', UserName = Some ''carol''\<rparr>]"

text \<open>
  A world in which every call succeeds: the composite resource is read, the region
  is found, the bundle is the request's entry of that name, any configuration loads,
  the remote API lists the given users and the desired state is written.
\<close>

definition example_env :: "User list \<Rightarrow> env" where
  "example_env users =
     \<lparr>GetObservedCompositeResource = (\<lambda>req. Inr example_composite),
      GetString = (\<lambda>u path. Inr ''eu-west-1''),
      GetCredentials = (\<lambda>req name.
         case map_of (req_credentials req) name of
           None \<Rightarrow> Inl (Error (name @ '': credential not found''))
         | Some d \<Rightarrow> Inr \<lparr>Data = d\<rparr>),
      LoadDefaultConfig = (\<lambda>region p. Inr \<lparr>Region = region, Provider = p\<rparr>),
      DescribeUsers = (\<lambda>cfg. Inr \<lparr>Users = users\<rparr>),
      SetDesiredCompositeResource = (\<lambda>d x. (d, None))\<rparr>"

definition example_credentials :: Credentials where
  "example_credentials =
     \<lparr>Data =
        [(''aws_access_key_id'', ''AKIAEXAMPLE''),
         (''aws_secret_access_key'', ''secret''),
         (''aws_session_token'', ''token'')]\<rparr>"

definition example_credentials_no_token :: Credentials where
  "example_credentials_no_token =
     \<lparr>Data =
        [(''aws_access_key_id'', ''AKIAEXAMPLE''),
         (''aws_secret_access_key'', ''secret'')]\<rparr>"

definition example_config :: "string \<Rightarrow> Credentials \<Rightarrow> Config" where
  "example_config region creds = \<lparr>Region = region, Provider = credentialsProvider creds\<rparr>"

text \<open>A listing with an entry that has no identifier and an identifier that occurs twice.\<close>

definition example_users_mixed :: "User list" where
  "example_users_mixed =
     [\<lparr>UserId = Some ''u1'', UserName = Some ''alice''\<rparr>,
      \<lparr>UserId = None, UserName = Some ''nobody''\<rparr>,
      \<lparr>UserId = Some ''u2'', UserName = None\<rparr>,
      \<lparr>UserId = Some ''u1'', UserName = Some ''alice''\<rparr>]"

text \<open>The same world, except that one call fails.\<close>

definition example_env_unreadable :: env where
  "example_env_unreadable =
     (example_env example_users)
       \<lparr>GetObservedCompositeResource := (\<lambda>req. Inl (Error ''cannot get observed composite''))\<rparr>"

definition example_env_no_region :: env where
  "example_env_no_region =
     (example_env example_users)
       \<lparr>GetString := (\<lambda>u path. Inl (Error (path @ '': no such field'')))\<rparr>"

definition example_env_listing_fails :: env where
  "example_env_listing_fails =
     (example_env example_users)\<lparr>DescribeUsers := (\<lambda>cfg. Inl (Error ''AccessDenied''))\<rparr>"

definition example_env_status_fails :: env where
  "example_env_status_fails =
     (example_env example_users)
       \<lparr>SetDesiredCompositeResource := (\<lambda>d x. (d, Some (Error ''cannot convert'')))\<rparr>"

definition example_env_config_fails :: env where
  "example_env_config_fails =
     (example_env example_users)
       \<lparr>LoadDefaultConfig := (\<lambda>region p. Inl (Error ''cannot load shared config''))\<rparr>"


text \<open>A request that carries no credentials.\<close>

definition example_request_no_credentials :: RunFunctionRequest where
  "example_request_no_credentials = example_request\<lparr>req_credentials := []\<rparr>"

section \<open>Properties\<close>

subsection \<open>The two loops\<close>

lemma collectUserIDs_fst:
  "fst (collectUserIDs users acc evs) =
     acc @ map (the \<circ> UserId) (filter (\<lambda>u. UserId u \<noteq> None) users)"
  by (induction users arbitrary: acc evs) (auto split: option.splits)

lemma discoveredIDs_eq:
  "discoveredIDs out = map (the \<circ> UserId) (filter (\<lambda>u. UserId u \<noteq> None) (Users out))"
  by (simp add: discoveredIDs_def collectUserIDs_fst)

lemma assignValues_eq:
  "i + length ids \<le> length vals \<Longrightarrow>
   assignValues i ids vals = take i vals @ map StringValue ids @ drop (i + length ids) vals"
proof (induction ids arbitrary: i vals)
  case Nil
  then show ?case by simp
next
  case (Cons uid ids)
  then show ?case
    by (simp add: take_Suc_conv_app_nth upd_conv_take_nth_drop drop_Suc add.commute)
qed

lemma stringValues_map: "stringValues userIDs = map StringValue userIDs"
  by (simp add: stringValues_def assignValues_eq)

lemma count_discovered:
  "count_list (map (the \<circ> UserId) (filter (\<lambda>u. UserId u \<noteq> None) users)) i =
   count_list (map UserId users) (Some i)"
  by (induction users) auto


subsection \<open>The five ways through RunFunction\<close>

lemma run_observed_error:
  "GetObservedCompositeResource e req = Inl er \<Longrightarrow>
   RunFunction e req =
     \<lparr>response = Fatal (To req DefaultTTL) er, err = None,
      events = [Info ''Running usergroup-manager function'' [(''tag'', LString (req_tag req))]],
      oxr = None\<rparr>"
  by (simp add: RunFunction_def)

lemma run_credentials_error:
  "GetObservedCompositeResource e req = Inr x \<Longrightarrow> GetCredentials e req ''aws'' = Inl er \<Longrightarrow>
   RunFunction e req =
     \<lparr>response = Fatal (To req DefaultTTL) (Errorf_w ''failed to get AWS credentials: '' er),
      err = None,
      events = Info ''Running usergroup-manager function'' [(''tag'', LString (req_tag req))]
                 # snd (resolveRegion e x),
      oxr = Some x\<rparr>"
  by (simp add: RunFunction_def Let_def case_prod_unfold)

lemma run_config_error:
  "GetObservedCompositeResource e req = Inr x \<Longrightarrow> GetCredentials e req ''aws'' = Inr creds \<Longrightarrow>
   LoadDefaultConfig e (fst (resolveRegion e x)) (credentialsProvider creds) = Inl er \<Longrightarrow>
   RunFunction e req =
     \<lparr>response = Fatal (To req DefaultTTL) (Errorf_w ''failed to load AWS config: '' er),
      err = None,
      events = Info ''Running usergroup-manager function'' [(''tag'', LString (req_tag req))]
                 # snd (resolveRegion e x),
      oxr = Some x\<rparr>"
  by (simp add: RunFunction_def Let_def case_prod_unfold)

lemma run_describe_error:
  "reaches_listing e req x creds cfg \<Longrightarrow> DescribeUsers e cfg = Inl er \<Longrightarrow>
   RunFunction e req =
     \<lparr>response = Fatal (To req DefaultTTL) (Errorf_w ''failed to describe ElastiCache users: '' er),
      err = None,
      events = Info ''Running usergroup-manager function'' [(''tag'', LString (req_tag req))]
                 # snd (resolveRegion e x) @ [DescribeUsersCall cfg],
      oxr = Some x\<rparr>"
  by (simp add: RunFunction_def reaches_listing_def Let_def case_prod_unfold)

lemma run_listed:
  "reaches_listing e req x creds cfg \<Longrightarrow> DescribeUsers e cfg = Inr out \<Longrightarrow>
   RunFunction e req =
     publish e (To req DefaultTTL) x (discoveredIDs out)
       (snd (collectUserIDs (Users out) []
          (Info ''Running usergroup-manager function'' [(''tag'', LString (req_tag req))]
             # snd (resolveRegion e x) @ [DescribeUsersCall cfg])))"
  by (simp add: RunFunction_def reaches_listing_def discoveredIDs_def Let_def
        case_prod_unfold collectUserIDs_fst)

subsection \<open>What publishing writes\<close>

lemma TargetCompositeAndClaim_ConditionTrue:
  "TargetCompositeAndClaim (ConditionTrue rsp typ txt) =
     rsp\<lparr>rsp_conditions := rsp_conditions rsp @
       [\<lparr>ctype = typ, cstatus = STATUS_CONDITION_TRUE, creason = txt, cmessage = None,
         ctarget = TARGET_COMPOSITE_AND_CLAIM\<rparr>]\<rparr>"
  by (simp add: TargetCompositeAndClaim_def ConditionTrue_def)

lemma publish_context:
  "rsp_context (response (publish e rsp x ids evs)) =
     AList.update ''discoveredUserIDs'' (ListValue (map StringValue ids)) (rsp_context rsp)"
  by (simp add: publish_def Let_def TargetCompositeAndClaim_ConditionTrue SetContextKey_def
        stringValues_map case_prod_unfold)

lemma publish_results:
  "rsp_results (response (publish e rsp x ids evs)) = rsp_results rsp"
  by (simp add: publish_def Let_def TargetCompositeAndClaim_ConditionTrue SetContextKey_def
        case_prod_unfold)

lemma publish_conditions:
  "rsp_conditions (response (publish e rsp x ids evs)) = rsp_conditions rsp @ [successCondition ids]"
  by (simp add: publish_def Let_def TargetCompositeAndClaim_ConditionTrue SetContextKey_def
        successCondition_def case_prod_unfold)

lemma publish_desired:
  "rsp_desired (response (publish e rsp x ids evs)) =
     fst (SetDesiredCompositeResource e (rsp_desired rsp) (setStatus x ids))"
  by (simp add: publish_def Let_def TargetCompositeAndClaim_ConditionTrue SetContextKey_def
        case_prod_unfold)

lemma publish_oxr: "oxr (publish e rsp x ids evs) = Some (setStatus x ids)"
  by (simp add: publish_def Let_def case_prod_unfold)

lemma publish_err: "err (publish e rsp x ids evs) = None"
  by (simp add: publish_def Let_def case_prod_unfold)

lemma publish_events:
  "events (publish e rsp x ids evs) =
     evs @ Info ''Total users discovered'' [(''count'', LInt (int (length ids)))]
       # (case snd (SetDesiredCompositeResource e (rsp_desired rsp) (setStatus x ids)) of
            None \<Rightarrow> []
          | Some er \<Rightarrow> [Info ''Failed to update XR status'' [(''error'', LError er)]])"
  by (simp add: publish_def Let_def SetContextKey_def case_prod_unfold split: option.splits)

lemma setStatus_status:
  "map_of (Object (Resource (setStatus x ids))) ''status'' = Some (statusObject ids)"
  by (simp add: setStatus_def update_conv')

lemma setStatus_other:
  "k \<noteq> ''status'' \<Longrightarrow>
   map_of (Object (Resource (setStatus x ids))) k = map_of (Object (Resource x)) k"
  by (simp add: setStatus_def update_conv')

lemma setStatus_details: "ConnectionDetails (setStatus x ids) = ConnectionDetails x"
  by (simp add: setStatus_def)

lemma collectUserIDs_events_append:
  "\<exists>t. snd (collectUserIDs users acc evs) = evs @ t"
proof (induction users arbitrary: acc evs)
  case Nil
  then show ?case by simp
next
  case (Cons u users)
  show ?case
  proof (cases "UserId u")
    case None
    then show ?thesis using Cons.IH by simp
  next
    case (Some uid)
    obtain t where
      "snd (collectUserIDs users (acc @ [uid])
         (evs @ [Info ''Discovered user''
            [(''userId'', LString uid), (''userName'', LString (ToString (UserName u)))]])) =
       (evs @ [Info ''Discovered user''
            [(''userId'', LString uid), (''userName'', LString (ToString (UserName u)))]]) @ t"
      using Cons.IH by blast
    then show ?thesis using Some by simp
  qed
qed

lemma collectUserIDs_events_prefix:
  "set evs \<subseteq> set (snd (collectUserIDs users acc evs))"
proof -
  obtain t where "snd (collectUserIDs users acc evs) = evs @ t"
    using collectUserIDs_events_append by blast
  then show ?thesis by simp
qed

lemma run_cases:
  assumes "GetObservedCompositeResource e req = Inr x"
  shows "(\<exists>er. GetCredentials e req ''aws'' = Inl er) \<or>
         (\<exists>creds er. GetCredentials e req ''aws'' = Inr creds \<and>
            LoadDefaultConfig e (fst (resolveRegion e x)) (credentialsProvider creds) = Inl er) \<or>
         (\<exists>creds cfg er. reaches_listing e req x creds cfg \<and> DescribeUsers e cfg = Inl er) \<or>
         (\<exists>creds cfg out. reaches_listing e req x creds cfg \<and> DescribeUsers e cfg = Inr out)"
proof (cases "GetCredentials e req ''aws''")
  case (Inl er)
  then show ?thesis by blast
next
  case (Inr creds)
  note creds = this
  show ?thesis
  proof (cases "LoadDefaultConfig e (fst (resolveRegion e x)) (credentialsProvider creds)")
    case (Inl er)
    with creds show ?thesis by blast
  next
    case (Inr cfg)
    with creds assms have r: "reaches_listing e req x creds cfg"
      by (simp add: reaches_listing_def)
    show ?thesis
    proof (cases "DescribeUsers e cfg")
      case (Inl er)
      with r show ?thesis by blast
    next
      case (Inr out)
      with r show ?thesis by blast
    qed
  qed
qed

lemma fatal_response:
  "is_fatal (Fatal (To req ttl) er) \<and>
   rsp_results (Fatal (To req ttl) er) = [\<lparr>severity = SEVERITY_FATAL, message = error_text er\<rparr>] \<and>
   rsp_context (Fatal (To req ttl) er) = req_context req \<and>
   rsp_desired (Fatal (To req ttl) er) = req_desired req \<and>
   rsp_conditions (Fatal (To req ttl) er) = []"
  by (simp add: is_fatal_def Fatal_def To_def)

lemma listed_response:
  assumes "reaches_listing e req x creds cfg" and "DescribeUsers e cfg = Inr out"
  shows "\<not> is_fatal (response (RunFunction e req))"
    and "rsp_results (response (RunFunction e req)) = []"
    and "rsp_conditions (response (RunFunction e req)) = [successCondition (discoveredIDs out)]"
    and "rsp_context (response (RunFunction e req)) =
           AList.update ''discoveredUserIDs'' (ListValue (map StringValue (discoveredIDs out)))
             (req_context req)"
    and "oxr (RunFunction e req) = Some (setStatus x (discoveredIDs out))"
    and "rsp_desired (response (RunFunction e req)) =
           fst (SetDesiredCompositeResource e (req_desired req) (setStatus x (discoveredIDs out)))"
  by (simp_all add: run_listed [OF assms] publish_results publish_conditions publish_context
        publish_oxr publish_desired is_fatal_def To_def)

lemma listed_context_entry:
  assumes "reaches_listing e req x creds cfg" and "DescribeUsers e cfg = Inr out"
  shows "map_of (rsp_context (response (RunFunction e req))) ''discoveredUserIDs'' =
           Some (ListValue (map StringValue (discoveredIDs out)))"
  by (simp add: listed_response(4) [OF assms] update_conv')


lemma listed_call:
  assumes "reaches_listing e req x creds cfg" and "DescribeUsers e cfg = Inr out"
  shows "DescribeUsersCall cfg \<in> set (events (RunFunction e req))"
proof -
  let ?evs = "Info ''Running usergroup-manager function'' [(''tag'', LString (req_tag req))]
                # snd (resolveRegion e x) @ [DescribeUsersCall cfg]"
  have "DescribeUsersCall cfg \<in> set ?evs" by simp
  then have "DescribeUsersCall cfg \<in> set (snd (collectUserIDs (Users out) [] ?evs))"
    using collectUserIDs_events_prefix by blast
  then show ?thesis
    by (simp add: run_listed [OF assms] publish_events)
qed

lemma region_events:
  assumes "GetObservedCompositeResource e req = Inr x"
  shows "set (snd (resolveRegion e x)) \<subseteq> set (events (RunFunction e req))"
proof -
  consider (c) er where "GetCredentials e req ''aws'' = Inl er"
    | (l) creds er where "GetCredentials e req ''aws'' = Inr creds"
        "LoadDefaultConfig e (fst (resolveRegion e x)) (credentialsProvider creds) = Inl er"
    | (d) creds cfg er where "reaches_listing e req x creds cfg" "DescribeUsers e cfg = Inl er"
    | (p) creds cfg out where "reaches_listing e req x creds cfg" "DescribeUsers e cfg = Inr out"
    using run_cases [OF assms] by blast
  then show ?thesis
  proof cases
    case c
    then show ?thesis by (auto simp: run_credentials_error [OF assms])
  next
    case l
    then show ?thesis by (auto simp: run_config_error [OF assms])
  next
    case d
    then show ?thesis by (auto simp: run_describe_error)
  next
    case p
    let ?evs = "Info ''Running usergroup-manager function'' [(''tag'', LString (req_tag req))]
                  # snd (resolveRegion e x) @ [DescribeUsersCall cfg]"
    have "set (snd (resolveRegion e x)) \<subseteq> set ?evs" by auto
    also have "\<dots> \<subseteq> set (snd (collectUserIDs (Users out) [] ?evs))"
      by (rule collectUserIDs_events_prefix)
    finally show ?thesis
      by (auto simp: run_listed [OF p] publish_events)
  qed
qed

lemma oxr_cases:
  assumes "GetObservedCompositeResource e req = Inr x"
  shows "oxr (RunFunction e req) = Some x \<or>
         (\<exists>ids. oxr (RunFunction e req) = Some (setStatus x ids))"
proof -
  consider (c) er where "GetCredentials e req ''aws'' = Inl er"
    | (l) creds er where "GetCredentials e req ''aws'' = Inr creds"
        "LoadDefaultConfig e (fst (resolveRegion e x)) (credentialsProvider creds) = Inl er"
    | (d) creds cfg er where "reaches_listing e req x creds cfg" "DescribeUsers e cfg = Inl er"
    | (p) creds cfg out where "reaches_listing e req x creds cfg" "DescribeUsers e cfg = Inr out"
    using run_cases [OF assms] by blast
  then show ?thesis
  proof cases
    case c
    then show ?thesis by (simp add: run_credentials_error [OF assms])
  next
    case l
    then show ?thesis by (simp add: run_config_error [OF assms])
  next
    case d
    then show ?thesis by (simp add: run_describe_error)
  next
    case p
    have "oxr (RunFunction e req) = Some (setStatus x (discoveredIDs out))"
      by (simp add: run_listed [OF p] publish_oxr)
    then show ?thesis by blast
  qed
qed

subsection \<open>The example world\<close>

lemma example_reaches:
  "reaches_listing (example_env users) example_request example_composite
     example_credentials (example_config ''eu-west-1'' example_credentials)"
  by (simp add: reaches_listing_def example_env_def example_request_def resolveRegion_def
        example_credentials_def example_config_def)

lemma example_describe:
  "DescribeUsers (example_env users) cfg = Inr \<lparr>Users = users\<rparr>"
  by (simp add: example_env_def)



lemma example_discovered:
  "discoveredIDs \<lparr>Users = example_users\<rparr> = [''u1'', ''u2'', ''u3'']"
  "discoveredIDs \<lparr>Users = example_users_mixed\<rparr> = [''u1'', ''u2'', ''u1'']"
  "discoveredIDs \<lparr>Users = []\<rparr> = []"
  by (simp_all add: discoveredIDs_def example_users_def example_users_mixed_def)

subsection \<open>The properties of the specification\<close>

text \<open>
  C1. When the listing call returns, the list published under \<^verbatim>\<open>discoveredUserIDs\<close>
  holds the identifiers of exactly the entries whose identifier field is not empty
  (not nil), as string values in the order of the listing; each identifier occurs as
  often as in the listing. An identifier that is the empty string is present, and is
  kept like any other.
\<close>

theorem published_identifiers:
  assumes "reaches_listing e req x creds cfg" and "DescribeUsers e cfg = Inr out"
  shows "map_of (rsp_context (response (RunFunction e req))) ''discoveredUserIDs'' =
           Some (ListValue (map StringValue
             (map (the \<circ> UserId) (filter (\<lambda>u. UserId u \<noteq> None) (Users out))))) \<and>
         (\<forall>i. count_list (map (the \<circ> UserId) (filter (\<lambda>u. UserId u \<noteq> None) (Users out))) i =
              count_list (map UserId (Users out)) (Some i))"
proof -
  have a: "map_of (rsp_context (response (RunFunction e req))) ''discoveredUserIDs'' =
          Some (ListValue (map StringValue
            (map (the \<circ> UserId) (filter (\<lambda>u. UserId u \<noteq> None) (Users out)))))"
    using listed_context_entry [OF assms] unfolding discoveredIDs_eq .
  have b: "\<forall>i. count_list (map (the \<circ> UserId) (filter (\<lambda>u. UserId u \<noteq> None) (Users out))) i =
              count_list (map UserId (Users out)) (Some i)"
    by (intro allI) (rule count_discovered)
  from a b show ?thesis by (rule conjI)
qed

theorem published_identifiers_witness:
  "reaches_listing (example_env example_users_mixed) example_request example_composite
     example_credentials (example_config ''eu-west-1'' example_credentials) \<and>
   map_of (rsp_context (response (RunFunction (example_env example_users_mixed) example_request)))
     ''discoveredUserIDs'' =
     Some (ListValue [StringValue ''u1'', StringValue ''u2'', StringValue ''u1''])"
proof -
  have r: "reaches_listing (example_env example_users_mixed) example_request example_composite
     example_credentials (example_config ''eu-west-1'' example_credentials)"
    by (rule example_reaches)
  have d: "DescribeUsers (example_env example_users_mixed)
             (example_config ''eu-west-1'' example_credentials) = Inr \<lparr>Users = example_users_mixed\<rparr>"
    by (rule example_describe)
  from published_identifiers [OF r d] r show ?thesis
    by (simp add: example_users_mixed_def)
qed

text \<open>
  C2, as stated, fails: the function never looks for the three fields. A bundle without a
  session token is read with the empty string in its place, and in a world where the
  configuration loads and the listing call succeeds the run is not fatal and writes
  the context entry and the status.
\<close>

theorem missing_field_not_fatal_counterexample:
  "map_of (Data example_credentials_no_token) ''aws_session_token'' = None \<and>
   GetCredentials (example_env example_users) example_request_no_token ''aws'' =
     Inr example_credentials_no_token \<and>
   \<not> is_fatal (response (RunFunction (example_env example_users) example_request_no_token)) \<and>
   map_of (rsp_context (response (RunFunction (example_env example_users) example_request_no_token)))
     ''discoveredUserIDs'' =
     Some (ListValue [StringValue ''u1'', StringValue ''u2'', StringValue ''u3'']) \<and>
   oxr (RunFunction (example_env example_users) example_request_no_token) =
     Some (setStatus example_composite [''u1'', ''u2'', ''u3''])"
proof -
  have r: "reaches_listing (example_env example_users) example_request_no_token example_composite
     example_credentials_no_token (example_config ''eu-west-1'' example_credentials_no_token)"
    by (simp add: reaches_listing_def example_env_def example_request_no_token_def
          example_request_def resolveRegion_def example_credentials_no_token_def
          example_config_def)
  have c: "GetCredentials (example_env example_users) example_request_no_token ''aws'' =
     Inr example_credentials_no_token"
    using r by (simp add: reaches_listing_def)
  have m: "map_of (Data example_credentials_no_token) ''aws_session_token'' = None"
    by (simp add: example_credentials_no_token_def)
  from listed_response(1) [OF r example_describe] listed_context_entry [OF r example_describe]
       listed_response(5) [OF r example_describe] c m
  show ?thesis
    by (simp add: example_discovered)
qed

text \<open>
  C2, amended. When the composite resource is read: if the bundle named \<^verbatim>\<open>aws\<close> cannot
  be obtained the response is fatal; if it is obtained, the response is fatal exactly
  when loading the configuration or the listing call fails; every fatal response has
  the request's context and desired state and no condition, and leaves the composite
  resource as it was read. A field the bundle lacks is passed as the empty string.
\<close>

theorem credentials_fatal_paths:
  assumes "GetObservedCompositeResource e req = Inr x"
  shows "(\<forall>er. GetCredentials e req ''aws'' = Inl er \<longrightarrow>
            is_fatal (response (RunFunction e req))) \<and>
         (\<forall>creds. GetCredentials e req ''aws'' = Inr creds \<longrightarrow>
            is_fatal (response (RunFunction e req)) =
              (case LoadDefaultConfig e (fst (resolveRegion e x)) (credentialsProvider creds) of
                 Inl _ \<Rightarrow> True
               | Inr cfg \<Rightarrow> (case DescribeUsers e cfg of Inl _ \<Rightarrow> True | Inr _ \<Rightarrow> False))) \<and>
         (is_fatal (response (RunFunction e req)) \<longrightarrow>
            rsp_context (response (RunFunction e req)) = req_context req \<and>
            rsp_desired (response (RunFunction e req)) = req_desired req \<and>
            rsp_conditions (response (RunFunction e req)) = [] \<and>
            oxr (RunFunction e req) = Some x) \<and>
         (\<forall>creds. map_of (Data creds) ''aws_access_key_id'' = None \<longrightarrow>
            AccessKeyID (credentialsProvider creds) = []) \<and>
         (\<forall>creds. map_of (Data creds) ''aws_secret_access_key'' = None \<longrightarrow>
            SecretAccessKey (credentialsProvider creds) = []) \<and>
         (\<forall>creds. map_of (Data creds) ''aws_session_token'' = None \<longrightarrow>
            SessionToken (credentialsProvider creds) = [])"
proof -
  have a: "is_fatal (response (RunFunction e req))"
    if "GetCredentials e req ''aws'' = Inl er" for er
    by (simp add: run_credentials_error [OF assms that] fatal_response)
  have b: "is_fatal (response (RunFunction e req)) =
              (case LoadDefaultConfig e (fst (resolveRegion e x)) (credentialsProvider creds) of
                 Inl _ \<Rightarrow> True
               | Inr cfg \<Rightarrow> (case DescribeUsers e cfg of Inl _ \<Rightarrow> True | Inr _ \<Rightarrow> False))"
    if c: "GetCredentials e req ''aws'' = Inr creds" for creds
  proof (cases "LoadDefaultConfig e (fst (resolveRegion e x)) (credentialsProvider creds)")
    case (Inl er)
    then show ?thesis
      by (simp add: run_config_error [OF assms c Inl] fatal_response)
  next
    case (Inr cfg)
    with assms c have r: "reaches_listing e req x creds cfg"
      by (simp add: reaches_listing_def)
    show ?thesis
    proof (cases "DescribeUsers e cfg")
      case (Inl er)
      with Inr show ?thesis
        by (simp add: run_describe_error [OF r Inl] fatal_response)
    next
      case d: (Inr out)
      with Inr show ?thesis
        by (simp add: listed_response(1) [OF r d])
    qed
  qed
  have c: "rsp_context (response (RunFunction e req)) = req_context req \<and>
            rsp_desired (response (RunFunction e req)) = req_desired req \<and>
            rsp_conditions (response (RunFunction e req)) = [] \<and>
            oxr (RunFunction e req) = Some x"
    if f: "is_fatal (response (RunFunction e req))"
  proof -
    consider (c) er where "GetCredentials e req ''aws'' = Inl er"
      | (l) creds er where "GetCredentials e req ''aws'' = Inr creds"
          "LoadDefaultConfig e (fst (resolveRegion e x)) (credentialsProvider creds) = Inl er"
      | (d) creds cfg er where "reaches_listing e req x creds cfg" "DescribeUsers e cfg = Inl er"
      | (p) creds cfg out where "reaches_listing e req x creds cfg" "DescribeUsers e cfg = Inr out"
      using run_cases [OF assms] by blast
    then show ?thesis
    proof cases
      case c
      then show ?thesis by (simp add: run_credentials_error [OF assms] fatal_response)
    next
      case l
      then show ?thesis by (simp add: run_config_error [OF assms] fatal_response)
    next
      case d
      then show ?thesis by (simp add: run_describe_error fatal_response)
    next
      case p
      with f listed_response(1) [OF p] show ?thesis by simp
    qed
  qed
  have d: "\<forall>creds. map_of (Data creds) ''aws_access_key_id'' = None \<longrightarrow>
            AccessKeyID (credentialsProvider creds) = []"
    "\<forall>creds. map_of (Data creds) ''aws_secret_access_key'' = None \<longrightarrow>
            SecretAccessKey (credentialsProvider creds) = []"
    "\<forall>creds. map_of (Data creds) ''aws_session_token'' = None \<longrightarrow>
            SessionToken (credentialsProvider creds) = []"
    by (simp_all add: credentialsProvider_def NewStaticCredentialsProvider_def data_string_def)
  from a b c d show ?thesis by blast
qed

theorem credentials_fatal_paths_witness:
  "GetObservedCompositeResource (example_env example_users) example_request_no_credentials =
     Inr example_composite \<and>
   GetCredentials (example_env example_users) example_request_no_credentials ''aws'' =
     Inl (Error ''aws: credential not found'') \<and>
   is_fatal (response (RunFunction (example_env example_users) example_request_no_credentials)) \<and>
   rsp_context (response (RunFunction (example_env example_users) example_request_no_credentials)) =
     [(''upstream'', StringValue ''kept'')] \<and>
   rsp_desired (response (RunFunction (example_env example_users) example_request_no_credentials)) =
     None \<and>
   oxr (RunFunction (example_env example_users) example_request_no_credentials) =
     Some example_composite \<and>
   map_of (Data example_credentials_no_token) ''aws_session_token'' = None \<and>
   SessionToken (credentialsProvider example_credentials_no_token) = []"
proof -
  have o: "GetObservedCompositeResource (example_env example_users) example_request_no_credentials =
     Inr example_composite"
    by (simp add: example_env_def)
  have g: "GetCredentials (example_env example_users) example_request_no_credentials ''aws'' =
     Inl (Error ''aws: credential not found'')"
    by (simp add: example_env_def example_request_no_credentials_def example_request_def)
  have m: "map_of (Data example_credentials_no_token) ''aws_session_token'' = None"
    by (simp add: example_credentials_no_token_def)
  note t = credentials_fatal_paths [OF o]
  from t g have f: "is_fatal (response (RunFunction (example_env example_users)
      example_request_no_credentials))"
    by blast
  with t have "rsp_context (response (RunFunction (example_env example_users)
        example_request_no_credentials)) = req_context example_request_no_credentials \<and>
      rsp_desired (response (RunFunction (example_env example_users)
        example_request_no_credentials)) = req_desired example_request_no_credentials \<and>
      oxr (RunFunction (example_env example_users) example_request_no_credentials) =
        Some example_composite"
    by blast
  moreover from t m have "SessionToken (credentialsProvider example_credentials_no_token) = []"
    by blast
  ultimately show ?thesis using o g m f
    by (simp add: example_request_no_credentials_def example_request_def)
qed

text \<open>
  C3. When every step before the listing call succeeds and the call of
  \<^verbatim>\<open>DescribeUsers\<close> fails, the response carries one result, fatal, with the wrapped
  error; its context and desired state are the request's, it has no condition, the
  composite resource in memory is as it was read, and the returned error is nil.
\<close>

theorem listing_failure_aborts:
  assumes "reaches_listing e req x creds cfg" and "DescribeUsers e cfg = Inl er"
  shows "is_fatal (response (RunFunction e req)) \<and>
         rsp_results (response (RunFunction e req)) =
           [\<lparr>severity = SEVERITY_FATAL,
             message = ''failed to describe ElastiCache users: '' @ error_text er\<rparr>] \<and>
         rsp_context (response (RunFunction e req)) = req_context req \<and>
         rsp_desired (response (RunFunction e req)) = req_desired req \<and>
         rsp_conditions (response (RunFunction e req)) = [] \<and>
         oxr (RunFunction e req) = Some x \<and>
         err (RunFunction e req) = None"
  by (simp add: run_describe_error [OF assms] fatal_response Errorf_w_def)

theorem listing_failure_aborts_witness:
  "reaches_listing example_env_listing_fails example_request example_composite
     example_credentials (example_config ''eu-west-1'' example_credentials) \<and>
   DescribeUsers example_env_listing_fails (example_config ''eu-west-1'' example_credentials) =
     Inl (Error ''AccessDenied'') \<and>
   is_fatal (response (RunFunction example_env_listing_fails example_request)) \<and>
   rsp_results (response (RunFunction example_env_listing_fails example_request)) =
     [\<lparr>severity = SEVERITY_FATAL,
       message = ''failed to describe ElastiCache users: AccessDenied''\<rparr>] \<and>
   rsp_context (response (RunFunction example_env_listing_fails example_request)) =
     [(''upstream'', StringValue ''kept'')] \<and>
   rsp_desired (response (RunFunction example_env_listing_fails example_request)) = None \<and>
   rsp_conditions (response (RunFunction example_env_listing_fails example_request)) = [] \<and>
   oxr (RunFunction example_env_listing_fails example_request) = Some example_composite"
proof -
  have r: "reaches_listing example_env_listing_fails example_request example_composite
     example_credentials (example_config ''eu-west-1'' example_credentials)"
    by (simp add: reaches_listing_def example_env_listing_fails_def example_env_def
          example_request_def resolveRegion_def example_credentials_def example_config_def)
  have d: "DescribeUsers example_env_listing_fails
             (example_config ''eu-west-1'' example_credentials) = Inl (Error ''AccessDenied'')"
    by (simp add: example_env_listing_fails_def)
  from listing_failure_aborts [OF r d] r d show ?thesis
    by (simp add: example_request_def)
qed




text \<open>
  C5. Whenever the run reaches the status write, the status it leaves in the composite
  resource is an object whose \<^verbatim>\<open>discoveredUsers\<close> is an integer equal to the length of
  the list under \<^verbatim>\<open>userIDs\<close> of the same object.
\<close>

theorem status_count_is_length:
  assumes "reaches_listing e req x creds cfg" and "DescribeUsers e cfg = Inr out"
  shows "\<exists>x' st n ids.
           oxr (RunFunction e req) = Some x' \<and>
           map_of (Object (Resource x')) ''status'' = Some (AMap st) \<and>
           map_of st ''discoveredUsers'' = Some (AInt n) \<and>
           map_of st ''userIDs'' = Some (AStrings ids) \<and>
           n = int (length ids)"
proof -
  let ?ids = "discoveredIDs out"
  let ?st = "[(''discoveredUsers'', AInt (int (length ?ids))), (''userIDs'', AStrings ?ids)]"
  have "oxr (RunFunction e req) = Some (setStatus x ?ids)"
    using assms by (rule listed_response(5))
  moreover have "map_of (Object (Resource (setStatus x ?ids))) ''status'' = Some (AMap ?st)"
    by (simp add: setStatus_status statusObject_def)
  moreover have "map_of ?st ''discoveredUsers'' = Some (AInt (int (length ?ids)))"
    by simp
  moreover have "map_of ?st ''userIDs'' = Some (AStrings ?ids)"
    by simp
  ultimately show ?thesis by blast
qed

theorem status_count_is_length_witness:
  "reaches_listing (example_env example_users_mixed) example_request example_composite
     example_credentials (example_config ''eu-west-1'' example_credentials) \<and>
   DescribeUsers (example_env example_users_mixed)
     (example_config ''eu-west-1'' example_credentials) = Inr \<lparr>Users = example_users_mixed\<rparr> \<and>
   (\<exists>x' st n ids.
     oxr (RunFunction (example_env example_users_mixed) example_request) = Some x' \<and>
     map_of (Object (Resource x')) ''status'' = Some (AMap st) \<and>
     map_of st ''discoveredUsers'' = Some (AInt n) \<and>
     map_of st ''userIDs'' = Some (AStrings ids) \<and>
     n = int (length ids))"
  using status_count_is_length [OF example_reaches example_describe]
    example_reaches example_describe by blast

text \<open>
  C6. When the composite resource is read and \<^verbatim>\<open>GetString\<close> returns an error for
  \<^verbatim>\<open>spec.parameters.region\<close>, the region is \<^verbatim>\<open>us-east-1\<close> and the run logs the
  substitution and goes on: if the credentials are found, the configuration loads for
  \<^verbatim>\<open>us-east-1\<close> and the listing call succeeds, the remote API is called with that
  configuration, the response has no fatal result and it carries the success condition.
\<close>

theorem missing_region_defaults:
  assumes "GetObservedCompositeResource e req = Inr x"
    and "GetString e (Resource x) ''spec.parameters.region'' = Inl er"
  shows "fst (resolveRegion e x) = ''us-east-1'' \<and>
         Info ''Region not specified, using default'' [(''default'', LString ''us-east-1'')]
           \<in> set (events (RunFunction e req)) \<and>
         (\<forall>creds cfg out.
            GetCredentials e req ''aws'' = Inr creds \<longrightarrow>
            LoadDefaultConfig e ''us-east-1'' (credentialsProvider creds) = Inr cfg \<longrightarrow>
            DescribeUsers e cfg = Inr out \<longrightarrow>
              DescribeUsersCall cfg \<in> set (events (RunFunction e req)) \<and>
              \<not> is_fatal (response (RunFunction e req)) \<and>
              rsp_conditions (response (RunFunction e req)) = [successCondition (discoveredIDs out)])"
proof -
  have region: "resolveRegion e x =
      (''us-east-1'',
       [Info ''Region not specified, using default'' [(''default'', LString ''us-east-1'')]])"
    using assms(2) by (simp add: resolveRegion_def)
  have logged: "Info ''Region not specified, using default'' [(''default'', LString ''us-east-1'')]
           \<in> set (events (RunFunction e req))"
    using region_events [OF assms(1)] region by simp
  have rest: "DescribeUsersCall cfg \<in> set (events (RunFunction e req)) \<and>
              \<not> is_fatal (response (RunFunction e req)) \<and>
              rsp_conditions (response (RunFunction e req)) = [successCondition (discoveredIDs out)]"
    if c: "GetCredentials e req ''aws'' = Inr creds"
      and l: "LoadDefaultConfig e ''us-east-1'' (credentialsProvider creds) = Inr cfg"
      and d: "DescribeUsers e cfg = Inr out" for creds cfg out
  proof -
    have r: "reaches_listing e req x creds cfg"
      using assms(1) c l region by (simp add: reaches_listing_def)
    show ?thesis
      using listed_call [OF r d] listed_response(1) [OF r d] listed_response(3) [OF r d]
      by simp
  qed
  from region logged rest show ?thesis by simp
qed

theorem missing_region_defaults_witness:
  "GetObservedCompositeResource example_env_no_region example_request = Inr example_composite \<and>
   GetString example_env_no_region (Resource example_composite) ''spec.parameters.region'' =
     Inl (Error ''spec.parameters.region: no such field'') \<and>
   fst (resolveRegion example_env_no_region example_composite) = ''us-east-1'' \<and>
   Info ''Region not specified, using default'' [(''default'', LString ''us-east-1'')]
     \<in> set (events (RunFunction example_env_no_region example_request)) \<and>
   DescribeUsersCall (example_config ''us-east-1'' example_credentials)
     \<in> set (events (RunFunction example_env_no_region example_request)) \<and>
   \<not> is_fatal (response (RunFunction example_env_no_region example_request)) \<and>
   rsp_conditions (response (RunFunction example_env_no_region example_request)) =
     [successCondition [''u1'', ''u2'', ''u3'']]"
proof -
  have o: "GetObservedCompositeResource example_env_no_region example_request = Inr example_composite"
    by (simp add: example_env_no_region_def example_env_def)
  have g: "GetString example_env_no_region (Resource example_composite) ''spec.parameters.region'' =
     Inl (Error ''spec.parameters.region: no such field'')"
    by (simp add: example_env_no_region_def)
  have c: "GetCredentials example_env_no_region example_request ''aws'' = Inr example_credentials"
    by (simp add: example_env_no_region_def example_env_def example_request_def
          example_credentials_def)
  have l: "LoadDefaultConfig example_env_no_region ''us-east-1''
             (credentialsProvider example_credentials) =
           Inr (example_config ''us-east-1'' example_credentials)"
    by (simp add: example_env_no_region_def example_env_def example_config_def)
  have d: "DescribeUsers example_env_no_region (example_config ''us-east-1'' example_credentials) =
           Inr \<lparr>Users = example_users\<rparr>"
    by (simp add: example_env_no_region_def example_env_def)
  from missing_region_defaults [OF o g] c l d o g show ?thesis
    by (simp add: example_discovered)
qed

text \<open>
  C7. When the run reaches the status write and \<^verbatim>\<open>SetDesiredCompositeResource\<close>
  returns an error, the response has no result at all, the returned error is nil, the
  failure is the last line logged, and the context entry and the success condition
  are in the response.
\<close>

theorem status_write_failure_is_logged:
  assumes "reaches_listing e req x creds cfg" and "DescribeUsers e cfg = Inr out"
    and "snd (SetDesiredCompositeResource e (req_desired req) (setStatus x (discoveredIDs out))) =
           Some er"
  shows "\<not> is_fatal (response (RunFunction e req)) \<and>
         rsp_results (response (RunFunction e req)) = [] \<and>
         err (RunFunction e req) = None \<and>
         last (events (RunFunction e req)) =
           Info ''Failed to update XR status'' [(''error'', LError er)] \<and>
         map_of (rsp_context (response (RunFunction e req))) ''discoveredUserIDs'' =
           Some (ListValue (map StringValue (discoveredIDs out))) \<and>
         rsp_conditions (response (RunFunction e req)) = [successCondition (discoveredIDs out)]"
proof -
  have r: "reaches_listing e req x creds cfg" and d: "DescribeUsers e cfg = Inr out"
    using assms by simp_all
  have "last (events (RunFunction e req)) =
           Info ''Failed to update XR status'' [(''error'', LError er)]"
    using assms(3) by (simp add: run_listed [OF r d] publish_events To_def)
  moreover have "err (RunFunction e req) = None"
    by (simp add: run_listed [OF r d] publish_err)
  ultimately show ?thesis
    using listed_response(1-3) [OF r d] listed_context_entry [OF r d] by simp
qed

theorem status_write_failure_is_logged_witness:
  "snd (SetDesiredCompositeResource example_env_status_fails (req_desired example_request)
          (setStatus example_composite [''u1'', ''u2'', ''u3''])) = Some (Error ''cannot convert'') \<and>
   \<not> is_fatal (response (RunFunction example_env_status_fails example_request)) \<and>
   rsp_results (response (RunFunction example_env_status_fails example_request)) = [] \<and>
   err (RunFunction example_env_status_fails example_request) = None \<and>
   last (events (RunFunction example_env_status_fails example_request)) =
     Info ''Failed to update XR status'' [(''error'', LError (Error ''cannot convert''))] \<and>
   map_of (rsp_context (response (RunFunction example_env_status_fails example_request)))
     ''discoveredUserIDs'' =
     Some (ListValue [StringValue ''u1'', StringValue ''u2'', StringValue ''u3'']) \<and>
   rsp_conditions (response (RunFunction example_env_status_fails example_request)) =
     [successCondition [''u1'', ''u2'', ''u3'']]"
proof -
  have r: "reaches_listing example_env_status_fails example_request example_composite
     example_credentials (example_config ''eu-west-1'' example_credentials)"
    by (simp add: reaches_listing_def example_env_status_fails_def example_env_def
          example_request_def resolveRegion_def example_credentials_def example_config_def)
  have d: "DescribeUsers example_env_status_fails
             (example_config ''eu-west-1'' example_credentials) = Inr \<lparr>Users = example_users\<rparr>"
    by (simp add: example_env_status_fails_def example_env_def)
  have w: "snd (SetDesiredCompositeResource example_env_status_fails (req_desired example_request)
          (setStatus example_composite (discoveredIDs \<lparr>Users = example_users\<rparr>))) =
        Some (Error ''cannot convert'')"
    by (simp add: example_env_status_fails_def)
  from status_write_failure_is_logged [OF r d w] w show ?thesis
    by (simp add: example_discovered)
qed

text \<open>
  C8. On every run that reads the composite resource, the resource the run leaves in
  memory has the connection details it was read with, and every top-level field other
  than \<^verbatim>\<open>status\<close> (so \<^verbatim>\<open>spec\<close>, with \<^verbatim>\<open>spec.parameters.region\<close> under it) is as it
  was read.
\<close>

theorem only_status_is_written:
  assumes "GetObservedCompositeResource e req = Inr x"
  shows "\<exists>x'. oxr (RunFunction e req) = Some x' \<and>
           ConnectionDetails x' = ConnectionDetails x \<and>
           (\<forall>k. k \<noteq> ''status'' \<longrightarrow>
              map_of (Object (Resource x')) k = map_of (Object (Resource x)) k)"
proof -
  from oxr_cases [OF assms] show ?thesis
  proof
    assume "oxr (RunFunction e req) = Some x"
    then show ?thesis by simp
  next
    assume "\<exists>ids. oxr (RunFunction e req) = Some (setStatus x ids)"
    then obtain ids where "oxr (RunFunction e req) = Some (setStatus x ids)" ..
    then show ?thesis
      by (simp add: setStatus_details setStatus_other)
  qed
qed

theorem only_status_is_written_witness:
  "GetObservedCompositeResource (example_env example_users) example_request =
     Inr example_composite \<and>
   (\<exists>x'. oxr (RunFunction (example_env example_users) example_request) = Some x' \<and>
      ConnectionDetails x' = [] \<and>
      map_of (Object (Resource x')) ''spec'' =
        Some (AMap [(''parameters'', AMap [(''region'', AString ''eu-west-1'')])]) \<and>
      map_of (Object (Resource x')) ''kind'' = Some (AString ''XCacheInfra''))"
proof -
  have o: "GetObservedCompositeResource (example_env example_users) example_request =
     Inr example_composite"
    by (simp add: example_env_def)
  from only_status_is_written [OF o] obtain x' where
    x': "oxr (RunFunction (example_env example_users) example_request) = Some x'"
      "ConnectionDetails x' = ConnectionDetails example_composite"
      "\<forall>k. k \<noteq> ''status'' \<longrightarrow>
         map_of (Object (Resource x')) k = map_of (Object (Resource example_composite)) k"
    by blast
  have "map_of (Object (Resource x')) ''spec'' =
        Some (AMap [(''parameters'', AMap [(''region'', AString ''eu-west-1'')])])"
    using x'(3) by (simp add: example_composite_def)
  moreover have "map_of (Object (Resource x')) ''kind'' = Some (AString ''XCacheInfra'')"
    using x'(3) by (simp add: example_composite_def)
  moreover have "ConnectionDetails x' = []"
    using x'(2) by (simp add: example_composite_def)
  ultimately show ?thesis using o x'(1) by blast
qed

text \<open>
  C9. When \<^verbatim>\<open>GetObservedCompositeResource\<close> returns an error, the run is the first
  log line and a response with that error as its one result, fatal: the context and
  the desired state are the request's, there is no condition, no composite resource is
  held, and the outcome is the same whatever the other calls would have returned.
\<close>

theorem unreadable_resource_aborts:
  assumes "GetObservedCompositeResource e req = Inl er"
  shows "is_fatal (response (RunFunction e req)) \<and>
         rsp_results (response (RunFunction e req)) =
           [\<lparr>severity = SEVERITY_FATAL, message = error_text er\<rparr>] \<and>
         rsp_context (response (RunFunction e req)) = req_context req \<and>
         rsp_desired (response (RunFunction e req)) = req_desired req \<and>
         rsp_conditions (response (RunFunction e req)) = [] \<and>
         oxr (RunFunction e req) = None \<and>
         events (RunFunction e req) =
           [Info ''Running usergroup-manager function'' [(''tag'', LString (req_tag req))]] \<and>
         (\<forall>e'. GetObservedCompositeResource e' req = Inl er \<longrightarrow>
            RunFunction e' req = RunFunction e req)"
proof -
  have same: "RunFunction e' req = RunFunction e req"
    if "GetObservedCompositeResource e' req = Inl er" for e'
    using run_observed_error [OF that] run_observed_error [OF assms] by simp
  have "is_fatal (response (RunFunction e req)) \<and>
         rsp_results (response (RunFunction e req)) =
           [\<lparr>severity = SEVERITY_FATAL, message = error_text er\<rparr>] \<and>
         rsp_context (response (RunFunction e req)) = req_context req \<and>
         rsp_desired (response (RunFunction e req)) = req_desired req \<and>
         rsp_conditions (response (RunFunction e req)) = [] \<and>
         oxr (RunFunction e req) = None \<and>
         events (RunFunction e req) =
           [Info ''Running usergroup-manager function'' [(''tag'', LString (req_tag req))]]"
    by (simp add: run_observed_error [OF assms] fatal_response)
  with same show ?thesis by blast
qed

theorem unreadable_resource_aborts_witness:
  "GetObservedCompositeResource example_env_unreadable example_request =
     Inl (Error ''cannot get observed composite'') \<and>
   is_fatal (response (RunFunction example_env_unreadable example_request)) \<and>
   rsp_results (response (RunFunction example_env_unreadable example_request)) =
     [\<lparr>severity = SEVERITY_FATAL, message = ''cannot get observed composite''\<rparr>] \<and>
   rsp_context (response (RunFunction example_env_unreadable example_request)) =
     [(''upstream'', StringValue ''kept'')] \<and>
   rsp_desired (response (RunFunction example_env_unreadable example_request)) = None \<and>
   rsp_conditions (response (RunFunction example_env_unreadable example_request)) = [] \<and>
   oxr (RunFunction example_env_unreadable example_request) = None \<and>
   events (RunFunction example_env_unreadable example_request) =
     [Info ''Running usergroup-manager function'' [(''tag'', LString ''t1'')]]"
proof -
  have o: "GetObservedCompositeResource example_env_unreadable example_request =
     Inl (Error ''cannot get observed composite'')"
    by (simp add: example_env_unreadable_def)
  from unreadable_resource_aborts [OF o]
  have "is_fatal (response (RunFunction example_env_unreadable example_request)) \<and>
     rsp_results (response (RunFunction example_env_unreadable example_request)) =
       [\<lparr>severity = SEVERITY_FATAL, message = error_text (Error ''cannot get observed composite'')\<rparr>] \<and>
     rsp_context (response (RunFunction example_env_unreadable example_request)) =
       req_context example_request \<and>
     rsp_desired (response (RunFunction example_env_unreadable example_request)) =
       req_desired example_request \<and>
     rsp_conditions (response (RunFunction example_env_unreadable example_request)) = [] \<and>
     oxr (RunFunction example_env_unreadable example_request) = None \<and>
     events (RunFunction example_env_unreadable example_request) =
       [Info ''Running usergroup-manager function'' [(''tag'', LString (req_tag example_request))]]"
    by blast
  with o show ?thesis
    by (simp add: example_request_def)
qed

text \<open>
  C10. For every request and every outcome of the calls, the error that
  \<^verbatim>\<open>RunFunction\<close> returns beside the response is nil, and the response answers the
  request (its tag, the default time to live). Each failure is in the response: when
  reading the composite resource, getting the credentials, loading the configuration
  or the listing call fails, the response's one result is fatal and carries that
  error's text (wrapped, but for the first); when none fails the response has no
  result. So the response is fatal exactly when the run does not get a listing.
\<close>

theorem no_transport_error:
  "err (RunFunction e req) = None \<and>
   rsp_tag (response (RunFunction e req)) = req_tag req \<and>
   rsp_ttl (response (RunFunction e req)) = DefaultTTL \<and>
   (\<forall>er. GetObservedCompositeResource e req = Inl er \<longrightarrow>
      rsp_results (response (RunFunction e req)) =
        [\<lparr>severity = SEVERITY_FATAL, message = error_text er\<rparr>]) \<and>
   (\<forall>x er. GetObservedCompositeResource e req = Inr x \<longrightarrow>
      GetCredentials e req ''aws'' = Inl er \<longrightarrow>
      rsp_results (response (RunFunction e req)) =
        [\<lparr>severity = SEVERITY_FATAL,
          message = ''failed to get AWS credentials: '' @ error_text er\<rparr>]) \<and>
   (\<forall>x creds er. GetObservedCompositeResource e req = Inr x \<longrightarrow>
      GetCredentials e req ''aws'' = Inr creds \<longrightarrow>
      LoadDefaultConfig e (fst (resolveRegion e x)) (credentialsProvider creds) = Inl er \<longrightarrow>
      rsp_results (response (RunFunction e req)) =
        [\<lparr>severity = SEVERITY_FATAL,
          message = ''failed to load AWS config: '' @ error_text er\<rparr>]) \<and>
   (\<forall>x creds cfg er. reaches_listing e req x creds cfg \<longrightarrow>
      DescribeUsers e cfg = Inl er \<longrightarrow>
      rsp_results (response (RunFunction e req)) =
        [\<lparr>severity = SEVERITY_FATAL,
          message = ''failed to describe ElastiCache users: '' @ error_text er\<rparr>]) \<and>
   (\<forall>x creds cfg out. reaches_listing e req x creds cfg \<longrightarrow>
      DescribeUsers e cfg = Inr out \<longrightarrow>
      rsp_results (response (RunFunction e req)) = []) \<and>
   is_fatal (response (RunFunction e req)) =
     (\<not> (\<exists>x creds cfg out. reaches_listing e req x creds cfg \<and> DescribeUsers e cfg = Inr out))"
proof -
  let ?R = "RunFunction e req"
  let ?listed = "\<exists>x creds cfg out. reaches_listing e req x creds cfg \<and> DescribeUsers e cfg = Inr out"
  have nil: "err ?R = None"
    by (simp add: RunFunction_def Let_def case_prod_unfold publish_err split: sum.splits)
  have meta: "rsp_tag (response ?R) = req_tag req" "rsp_ttl (response ?R) = DefaultTTL"
    by (simp_all add: RunFunction_def Let_def case_prod_unfold publish_def To_def Fatal_def
          TargetCompositeAndClaim_ConditionTrue SetContextKey_def split: sum.splits)
  have ro: "rsp_results (response ?R) = [\<lparr>severity = SEVERITY_FATAL, message = error_text er\<rparr>]"
    if "GetObservedCompositeResource e req = Inl er" for er
    by (simp add: run_observed_error [OF that] fatal_response)
  have rc: "rsp_results (response ?R) =
        [\<lparr>severity = SEVERITY_FATAL,
          message = ''failed to get AWS credentials: '' @ error_text er\<rparr>]"
    if "GetObservedCompositeResource e req = Inr x" "GetCredentials e req ''aws'' = Inl er"
    for x er
    by (simp add: run_credentials_error [OF that] fatal_response Errorf_w_def)
  have rl: "rsp_results (response ?R) =
        [\<lparr>severity = SEVERITY_FATAL,
          message = ''failed to load AWS config: '' @ error_text er\<rparr>]"
    if "GetObservedCompositeResource e req = Inr x" "GetCredentials e req ''aws'' = Inr creds"
      "LoadDefaultConfig e (fst (resolveRegion e x)) (credentialsProvider creds) = Inl er"
    for x creds er
    by (simp add: run_config_error [OF that] fatal_response Errorf_w_def)
  have rd: "rsp_results (response ?R) =
        [\<lparr>severity = SEVERITY_FATAL,
          message = ''failed to describe ElastiCache users: '' @ error_text er\<rparr>]"
    if "reaches_listing e req x creds cfg" "DescribeUsers e cfg = Inl er" for x creds cfg er
    by (simp add: run_describe_error [OF that] fatal_response Errorf_w_def)
  have rp: "rsp_results (response ?R) = []"
    if "reaches_listing e req x creds cfg" "DescribeUsers e cfg = Inr out" for x creds cfg out
    using that by (rule listed_response(2))
  have f: "is_fatal (response ?R) = (\<not> ?listed)"
  proof (cases "GetObservedCompositeResource e req")
    case (Inl er)
    then have "\<not> ?listed" by (simp add: reaches_listing_def)
    moreover have "is_fatal (response ?R)"
      by (simp add: is_fatal_def ro [OF Inl])
    ultimately show ?thesis by simp
  next
    case (Inr x)
    consider (c) er where "GetCredentials e req ''aws'' = Inl er"
      | (l) creds er where "GetCredentials e req ''aws'' = Inr creds"
          "LoadDefaultConfig e (fst (resolveRegion e x)) (credentialsProvider creds) = Inl er"
      | (d) creds cfg er where "reaches_listing e req x creds cfg" "DescribeUsers e cfg = Inl er"
      | (p) creds cfg out where "reaches_listing e req x creds cfg" "DescribeUsers e cfg = Inr out"
      using run_cases [OF Inr] by blast
    then show ?thesis
    proof cases
      case c
      then have "\<not> ?listed" by (simp add: reaches_listing_def)
      moreover have "is_fatal (response ?R)"
        by (simp add: is_fatal_def rc [OF Inr c])
      ultimately show ?thesis by simp
    next
      case l
      with Inr have "\<not> ?listed" by (auto simp: reaches_listing_def)
      moreover have "is_fatal (response ?R)"
        by (simp add: is_fatal_def rl [OF Inr l])
      ultimately show ?thesis by simp
    next
      case d
      then have "\<not> ?listed" by (auto simp: reaches_listing_def)
      moreover have "is_fatal (response ?R)"
        by (simp add: is_fatal_def rd [OF d])
      ultimately show ?thesis by simp
    next
      case p
      then have "?listed" by blast
      moreover have "\<not> is_fatal (response ?R)"
        using p by (rule listed_response(1))
      ultimately show ?thesis by simp
    qed
  qed
  from nil meta ro rc rl rd rp f show ?thesis by blast
qed

theorem no_transport_error_witness:
  "(err (RunFunction example_env_unreadable example_request) = None \<and>
    rsp_results (response (RunFunction example_env_unreadable example_request)) =
      [\<lparr>severity = SEVERITY_FATAL, message = ''cannot get observed composite''\<rparr>]) \<and>
   (err (RunFunction (example_env example_users) example_request_no_credentials) = None \<and>
    rsp_results (response (RunFunction (example_env example_users)
        example_request_no_credentials)) =
      [\<lparr>severity = SEVERITY_FATAL,
        message = ''failed to get AWS credentials: aws: credential not found''\<rparr>]) \<and>
   (err (RunFunction example_env_config_fails example_request) = None \<and>
    rsp_results (response (RunFunction example_env_config_fails example_request)) =
      [\<lparr>severity = SEVERITY_FATAL,
        message = ''failed to load AWS config: cannot load shared config''\<rparr>]) \<and>
   (err (RunFunction example_env_listing_fails example_request) = None \<and>
    rsp_results (response (RunFunction example_env_listing_fails example_request)) =
      [\<lparr>severity = SEVERITY_FATAL,
        message = ''failed to describe ElastiCache users: AccessDenied''\<rparr>]) \<and>
   (err (RunFunction (example_env example_users) example_request) = None \<and>
    rsp_results (response (RunFunction (example_env example_users) example_request)) = [] \<and>
    \<not> is_fatal (response (RunFunction (example_env example_users) example_request)) \<and>
    rsp_tag (response (RunFunction (example_env example_users) example_request)) = ''t1'' \<and>
    rsp_ttl (response (RunFunction (example_env example_users) example_request)) = 60)"
proof -
  have o1: "GetObservedCompositeResource example_env_unreadable example_request =
      Inl (Error ''cannot get observed composite'')"
    by (simp add: example_env_unreadable_def)
  have a1: "err (RunFunction example_env_unreadable example_request) = None \<and>
    rsp_results (response (RunFunction example_env_unreadable example_request)) =
      [\<lparr>severity = SEVERITY_FATAL, message = ''cannot get observed composite''\<rparr>]"
    using no_transport_error [of example_env_unreadable example_request] o1 by auto
  have o2: "GetObservedCompositeResource (example_env example_users)
      example_request_no_credentials = Inr example_composite"
    by (simp add: example_env_def)
  have c2: "GetCredentials (example_env example_users) example_request_no_credentials ''aws'' =
      Inl (Error ''aws: credential not found'')"
    by (simp add: example_env_def example_request_no_credentials_def example_request_def)
  have a2: "err (RunFunction (example_env example_users) example_request_no_credentials) = None \<and>
    rsp_results (response (RunFunction (example_env example_users)
        example_request_no_credentials)) =
      [\<lparr>severity = SEVERITY_FATAL,
        message = ''failed to get AWS credentials: aws: credential not found''\<rparr>]"
    using no_transport_error [of "example_env example_users" example_request_no_credentials]
      o2 c2 by auto
  have o3: "GetObservedCompositeResource example_env_config_fails example_request =
      Inr example_composite"
    by (simp add: example_env_config_fails_def example_env_def)
  have c3: "GetCredentials example_env_config_fails example_request ''aws'' =
      Inr example_credentials"
    by (simp add: example_env_config_fails_def example_env_def example_request_def
          example_credentials_def)
  have l3: "LoadDefaultConfig example_env_config_fails
      (fst (resolveRegion example_env_config_fails example_composite))
      (credentialsProvider example_credentials) = Inl (Error ''cannot load shared config'')"
    by (simp add: example_env_config_fails_def)
  have a3: "err (RunFunction example_env_config_fails example_request) = None \<and>
    rsp_results (response (RunFunction example_env_config_fails example_request)) =
      [\<lparr>severity = SEVERITY_FATAL,
        message = ''failed to load AWS config: cannot load shared config''\<rparr>]"
    using no_transport_error [of example_env_config_fails example_request] o3 c3 l3 by auto
  have r4: "reaches_listing example_env_listing_fails example_request example_composite
     example_credentials (example_config ''eu-west-1'' example_credentials)"
    by (simp add: reaches_listing_def example_env_listing_fails_def example_env_def
          example_request_def resolveRegion_def example_credentials_def example_config_def)
  have d4: "DescribeUsers example_env_listing_fails
      (example_config ''eu-west-1'' example_credentials) = Inl (Error ''AccessDenied'')"
    by (simp add: example_env_listing_fails_def)
  have a4: "err (RunFunction example_env_listing_fails example_request) = None \<and>
    rsp_results (response (RunFunction example_env_listing_fails example_request)) =
      [\<lparr>severity = SEVERITY_FATAL,
        message = ''failed to describe ElastiCache users: AccessDenied''\<rparr>]"
    using no_transport_error [of example_env_listing_fails example_request] r4 d4 by auto
  have r5: "reaches_listing (example_env example_users) example_request example_composite
     example_credentials (example_config ''eu-west-1'' example_credentials)"
    by (rule example_reaches)
  have d5: "DescribeUsers (example_env example_users)
      (example_config ''eu-west-1'' example_credentials) = Inr \<lparr>Users = example_users\<rparr>"
    by (rule example_describe)
  have a5: "err (RunFunction (example_env example_users) example_request) = None \<and>
    rsp_results (response (RunFunction (example_env example_users) example_request)) = [] \<and>
    \<not> is_fatal (response (RunFunction (example_env example_users) example_request)) \<and>
    rsp_tag (response (RunFunction (example_env example_users) example_request)) = ''t1'' \<and>
    rsp_ttl (response (RunFunction (example_env example_users) example_request)) = 60"
    using no_transport_error [of "example_env example_users" example_request] r5 d5
    by (auto simp: example_request_def DefaultTTL_def)
  from a1 a2 a3 a4 a5 show ?thesis by blast
qed

end
